theory Spec2Isabelle
  imports Complex_Main
begin

section \<open>Configuration (config.py)\<close>

text \<open>
  The three NDVI thresholds are read from the environment with defaults
  0.6, 0.3 and 0.1.  They are carried as an explicit configuration value.
  Samples are modelled as exact reals in place of 32-bit floats.
\<close>

record config =
  NDVI_HEALTHY :: real
  NDVI_MODERATE :: real
  NDVI_SEVERE :: real

definition default_config :: config where
  "default_config = \<lparr>NDVI_HEALTHY = 6 / 10, NDVI_MODERATE = 3 / 10, NDVI_SEVERE = 1 / 10\<rparr>"

text \<open>The thresholds are ordered (as the defaults are).\<close>

definition ordered_thresholds :: "config \<Rightarrow> bool" where
  "ordered_thresholds cfg =
     (NDVI_SEVERE cfg \<le> NDVI_MODERATE cfg \<and> NDVI_MODERATE cfg \<le> NDVI_HEALTHY cfg)"

section \<open>Array operations used by the pipeline (numpy)\<close>

datatype error = ValueError

type_synonym 'a raster = "'a list list"

text \<open>\<open>a.clip(lo, hi)\<close> is \<open>minimum(maximum(a, lo), hi)\<close>.\<close>

definition np_clip :: "real \<Rightarrow> real \<Rightarrow> real \<Rightarrow> real" where
  "np_clip x lo hi = min (max x lo) hi"

text \<open>
  \<open>np.min\<close> and \<open>np.max\<close> of a zero-size array raise ValueError
  (the reduction has no identity).
\<close>

fun np_min :: "real list \<Rightarrow> error + real" where
  "np_min [] = Inl ValueError"
| "np_min (x # xs) = Inr (fold min xs x)"

fun np_max :: "real list \<Rightarrow> error + real" where
  "np_max [] = Inl ValueError"
| "np_max (x # xs) = Inr (fold max xs x)"

text \<open>
  \<open>np.mean\<close> and \<open>np.std\<close> of a zero-size array do not raise (they warn and
  give NaN); every use below is reached only after \<open>np.min\<close> has returned
  or is discarded when it raises, so the value at \<open>[]\<close> is never observed.
  \<open>np.std\<close> is the square root of \<open>np_var\<close>; the records below carry the
  variance, which stays rational on rational samples.
\<close>

definition np_mean :: "real list \<Rightarrow> real" where
  "np_mean xs = sum_list xs / real (length xs)"

definition np_var :: "real list \<Rightarrow> real" where
  "np_var xs = np_mean (map (\<lambda>x. (x - np_mean xs)\<^sup>2) xs)"

text \<open>\<open>np.percentile\<close> with the default linear interpolation, on a non-empty array.\<close>

definition np_percentile :: "real list \<Rightarrow> real \<Rightarrow> real" where
  "np_percentile xs q =
     (let s = sort xs;
          n = length s;
          pos = q / 100 * real (n - 1);
          lo = nat \<lfloor>pos\<rfloor>;
          hi = min (lo + 1) (n - 1);
          frac = pos - real lo
      in s ! lo + frac * (s ! hi - s ! lo))"

definition np_median :: "real list \<Rightarrow> real" where
  "np_median xs =
     (let s = sort xs; n = length s
      in if odd n then s ! (n div 2) else (s ! (n div 2 - 1) + s ! (n div 2)) / 2)"

text \<open>\<open>mask.mean() * 100\<close> for the boolean mask \<open>P(valid)\<close>.\<close>

definition mask_mean_pct :: "(real \<Rightarrow> bool) \<Rightarrow> real list \<Rightarrow> real" where
  "mask_mean_pct P valid = real (length (filter P valid)) / real (length valid) * 100"

text \<open>\<open>mask.sum()\<close> for the boolean mask \<open>P(valid)\<close>.\<close>

definition mask_sum :: "(real \<Rightarrow> bool) \<Rightarrow> real list \<Rightarrow> nat" where
  "mask_sum P valid = length (filter P valid)"

section \<open>Health classes by threshold\<close>

text \<open>The four masks used by \<open>calculate_ndvi\<close> and \<open>classify_health\<close>.\<close>

definition is_healthy :: "config \<Rightarrow> real \<Rightarrow> bool" where
  "is_healthy cfg v = (v > NDVI_HEALTHY cfg)"

definition is_moderate :: "config \<Rightarrow> real \<Rightarrow> bool" where
  "is_moderate cfg v = (v > NDVI_MODERATE cfg \<and> v \<le> NDVI_HEALTHY cfg)"

definition is_severe :: "config \<Rightarrow> real \<Rightarrow> bool" where
  "is_severe cfg v = (v > NDVI_SEVERE cfg \<and> v \<le> NDVI_MODERATE cfg)"

definition is_critical :: "config \<Rightarrow> real \<Rightarrow> bool" where
  "is_critical cfg v = (v \<le> NDVI_SEVERE cfg)"

section \<open>NDVI calculator (processing/ndvi_calculator.py)\<close>

text \<open>
  A pixel of the 4-band input image (band order Blue, Green, Red, NIR);
  \<open>calculate_ndvi\<close> reads band 3 (B04, red) and band 4 (B08, near infrared).
\<close>

record pixel =
  B02 :: real
  B03 :: real
  B04 :: real
  B08 :: real

text \<open>Lines 49-54: the per-pixel value before clipping.\<close>

definition ndvi_where :: "real \<Rightarrow> real \<Rightarrow> real" where
  "ndvi_where n r =
     (let denominator = n + r
      in if denominator > 0 then (n - r) / denominator else 0)"

text \<open>Line 55: the value written to the output raster.\<close>

definition ndvi_value :: "real \<Rightarrow> real \<Rightarrow> real" where
  "ndvi_value n r = np_clip (ndvi_where n r) (- 1) 1"

definition ndvi_array :: "pixel raster \<Rightarrow> real raster" where
  "ndvi_array img = map (map (\<lambda>p. ndvi_value (B08 p) (B04 p))) img"

text \<open>\<open>valid = ndvi[ndvi > -9999]\<close>: the selected samples, flattened in row-major order.\<close>

definition valid_pixels :: "real raster \<Rightarrow> real list" where
  "valid_pixels ndvi = filter (\<lambda>v. v > - 9999) (concat ndvi)"

record statistics =
  min_s :: real
  max_s :: real
  mean_s :: real
  var_s :: real
  median_s :: real
  p25 :: real
  p75 :: real
  healthy_pct :: real
  moderate_stress_pct :: real
  severe_stress_pct :: real
  critical_pct :: real
  total_pixels :: nat

definition compute_statistics :: "config \<Rightarrow> real list \<Rightarrow> error + statistics" where
  "compute_statistics cfg valid =
     (case np_min valid of
        Inl e \<Rightarrow> Inl e
      | Inr mn \<Rightarrow>
          (case np_max valid of
             Inl e \<Rightarrow> Inl e
           | Inr mx \<Rightarrow>
               Inr \<lparr>min_s = mn,
                    max_s = mx,
                    mean_s = np_mean valid,
                    var_s = np_var valid,
                    median_s = np_median valid,
                    p25 = np_percentile valid 25,
                    p75 = np_percentile valid 75,
                    healthy_pct = mask_mean_pct (is_healthy cfg) valid,
                    moderate_stress_pct = mask_mean_pct (is_moderate cfg) valid,
                    severe_stress_pct = mask_mean_pct (is_severe cfg) valid,
                    critical_pct = mask_mean_pct (is_critical cfg) valid,
                    total_pixels = length valid\<rparr>))"

text \<open>
  \<open>calculate_ndvi\<close> returns the raster it has written to the output file
  (written before the statistics are computed) and the statistics, or the
  error raised while computing them.  Paths, CRS and time stamps are passed
  through unchanged by the source and are left out.
\<close>

definition calculate_ndvi :: "config \<Rightarrow> pixel raster \<Rightarrow> real raster \<times> (error + statistics)" where
  "calculate_ndvi cfg img =
     (let ndvi = ndvi_array img;
          valid = valid_pixels ndvi
      in (ndvi, compute_statistics cfg valid))"

section \<open>Health classifier (ai_models/health_classifier.py)\<close>

text \<open>
  Python's \<open>round(x, 1)\<close> on a numpy float: \<open>rint(x * 10) / 10\<close>, where
  \<open>rint\<close> rounds to the nearest integer and a tie to the even one.  The
  argument is taken as the exact quotient; the code rounds the float64 value
  of \<open>count / total * 100\<close>, which where the exact value is a tie can lie just
  beside it and round the other way (at 23 of 80 the exact 28.75 gives 28.8,
  the float64 product 28.7).  The two agree wherever the exact value is not
  such a tie; no statement below rests on the rounded digit at a tie.
\<close>

definition rint :: "real \<Rightarrow> int" where
  "rint x =
     (let f = \<lfloor>x\<rfloor>; d = x - of_int f
      in if d < 1 / 2 then f else if d > 1 / 2 then f + 1 else if even f then f else f + 1)"

definition round1 :: "real \<Rightarrow> real" where
  "round1 x = of_int (rint (x * 10)) / 10"

text \<open>
  A formatted message is kept as its template: literal text and the
  formatted fields (\<open>:.0f\<close>, \<open>:.1f\<close>, \<open>:.0%\<close>) with their arguments.
\<close>

datatype part = Lit string | Fmt0f real | Fmt1f real | Fmt0pct real

datatype icon = RotatingLight | WarningSign | ColdFace

record alert =
  alert_type :: string
  title :: string
  message :: "part list"
  icon :: icon

record recommendation =
  priority :: string
  action :: string
  detail :: "part list"

text \<open>
  The weather dictionary: the keys \<open>soil\<close> and \<open>current\<close> may be missing, and
  so may \<open>moisture\<close>, \<open>humidity_pct\<close> and \<open>temperature_c\<close> inside them.
  \<open>other_keys\<close> lists the remaining top-level keys (they decide, with the two
  above, whether the dictionary is empty).
\<close>

record soil_dict =
  moisture :: "real option"

record current_dict =
  humidity_pct :: "real option"
  temperature_c :: "real option"

record weather =
  soil :: "soil_dict option"
  current :: "current_dict option"
  other_keys :: "string list"

text \<open>\<open>if weather_data:\<close> holds for a dictionary that is not None and not empty.\<close>

definition nonempty_dict :: "weather \<Rightarrow> bool" where
  "nonempty_dict w = (soil w \<noteq> None \<or> current w \<noteq> None \<or> other_keys w \<noteq> [])"

text \<open>\<open>d.get(key, default)\<close>.\<close>

definition get_default :: "'a option \<Rightarrow> 'a \<Rightarrow> 'a" where
  "get_default v d = (case v of None \<Rightarrow> d | Some x \<Rightarrow> x)"

record pixel_counts =
  healthy_px :: nat
  moderate_stress_px :: nat
  severe_stress_px :: nat
  critical_px :: nat
  total_px :: nat

record percentages =
  healthy :: real
  moderate_stress :: real
  severe_stress :: real
  critical :: real

record overall_ndvi =
  mean_o :: real
  var_o :: real
  min_o :: real
  max_o :: real

record classification =
  counts :: pixel_counts
  pcts :: percentages
  overall :: overall_ndvi
  overall_health :: string
  alerts :: "alert list"
  recommendations :: "recommendation list"

definition overall_health_fn :: "nat \<Rightarrow> nat \<Rightarrow> nat \<Rightarrow> nat \<Rightarrow> nat \<Rightarrow> string" where
  "overall_health_fn healthy_n moderate_n severe_n critical_n total_n =
     (if total_n = 0 then ''No Data''
      else let healthy_frac = real healthy_n / real total_n
           in if healthy_frac > 7 / 10 then ''Good''
              else if healthy_frac > 5 / 10 then ''Fair''
              else if healthy_frac > 3 / 10 then ''Poor''
              else ''Critical'')"

definition drought_alert :: "real \<Rightarrow> percentages \<Rightarrow> alert" where
  "drought_alert soil_moisture p =
     \<lparr>alert_type = ''CRITICAL'',
      title = ''Drought Stress Detected'',
      message = [Lit ''Soil moisture at '', Fmt0pct soil_moisture, Lit '' combined with '',
                 Fmt0f (severe_stress p + critical p), Lit ''% stressed vegetation. '',
                 Lit ''Immediate irrigation required.''],
      icon = RotatingLight\<rparr>"

text \<open>The degree sign of the two temperature messages, as its two UTF-8 bytes.\<close>

definition degree_sign :: string where
  "degree_sign = [CHR 0xC2, CHR 0xB0]"

definition disease_alert :: "real \<Rightarrow> real \<Rightarrow> percentages \<Rightarrow> alert" where
  "disease_alert humidity temp p =
     \<lparr>alert_type = ''WARNING'',
      title = ''Disease Risk Elevated'',
      message = [Lit ''Humidity at '', Fmt0f humidity, Lit ''% and temp at '', Fmt1f temp,
                 Lit (degree_sign @ ''C with ''), Fmt0f (moderate_stress p),
                 Lit ''% moderately stressed vegetation. '',
                 Lit ''Scout for fungal pathogens.''],
      icon = WarningSign\<rparr>"

definition frost_alert :: "real \<Rightarrow> alert" where
  "frost_alert temp =
     \<lparr>alert_type = ''WARNING'',
      title = ''Frost Damage Risk'',
      message = [Lit ''Temperature at '', Fmt1f temp, Lit (degree_sign @ ''C with active vegetation. ''),
                 Lit ''Risk of frost damage to growing crop.''],
      icon = ColdFace\<rparr>"

definition weather_correlated_alerts :: "classification \<Rightarrow> weather \<Rightarrow> alert list" where
  "weather_correlated_alerts c w =
     (let soil_d = get_default (soil w) \<lparr>moisture = None\<rparr>;
          current_d = get_default (current w) \<lparr>humidity_pct = None, temperature_c = None\<rparr>;
          p = pcts c;
          soil_moisture = get_default (moisture soil_d) (5 / 10);
          a1 = (if soil_moisture < 2 / 10 \<and> severe_stress p + critical p > 30
                then [drought_alert soil_moisture p] else []);
          humidity = get_default (humidity_pct current_d) 50;
          temp = get_default (temperature_c current_d) 20;
          a2 = (if humidity > 80 \<and> temp > 18 \<and> moderate_stress p > 20
                then [disease_alert humidity temp p] else []);
          a3 = (if temp < 2 \<and> healthy p > 30 then [frost_alert temp] else [])
      in a1 @ a2 @ a3)"

definition field_inspection :: "percentages \<Rightarrow> recommendation" where
  "field_inspection p =
     \<lparr>priority = ''HIGH'',
      action = ''Field Inspection'',
      detail = [Fmt0f (critical p), Lit ''% of field is in critical condition. '',
                Lit ''Deploy ground crew for immediate visual inspection.'']\<rparr>"

definition soil_nutrient_test :: recommendation where
  "soil_nutrient_test =
     \<lparr>priority = ''HIGH'',
      action = ''Soil & Nutrient Test'',
      detail = [Lit ''Significant stress detected. Recommend soil sampling to '',
                Lit ''identify possible nutrient deficiency or pH imbalance.'']\<rparr>"

definition targeted_treatment :: recommendation where
  "targeted_treatment =
     \<lparr>priority = ''MEDIUM'',
      action = ''Targeted Treatment'',
      detail = [Lit ''Apply variable-rate fertilizer or irrigation to '',
                Lit ''moderately stressed zones to prevent further decline.'']\<rparr>"

definition routine_monitoring :: recommendation where
  "routine_monitoring =
     \<lparr>priority = ''LOW'',
      action = ''Routine Monitoring'',
      detail = [Lit ''Field is predominantly healthy. Continue scheduled '',
                Lit ''monitoring and maintain current management practices.'']\<rparr>"

definition schedule_next_scan :: recommendation where
  "schedule_next_scan =
     \<lparr>priority = ''MEDIUM'',
      action = ''Schedule Next Scan'',
      detail = [Lit ''Re-scan in 3-5 days to track vegetation trends.'']\<rparr>"

definition generate_recommendations :: "classification \<Rightarrow> recommendation list" where
  "generate_recommendations c =
     (let p = pcts c;
          recs = [];
          recs = (if critical p > 15 then recs @ [field_inspection p] else recs);
          recs = (if severe_stress p > 25 then recs @ [soil_nutrient_test] else recs);
          recs = (if moderate_stress p > 30 then recs @ [targeted_treatment] else recs);
          recs = (if healthy p > 70 then recs @ [routine_monitoring] else recs);
          recs = (if recs = [] then recs @ [schedule_next_scan] else recs)
      in recs)"

text \<open>
  \<open>classify_health\<close> on the raster read from the NDVI file.  The dictionary
  literal is evaluated in order: the counts and percentages (guarded by
  \<open>total > 0\<close>), then mean and std, then \<open>np.min\<close> and \<open>np.max\<close>, which raise
  on an empty selection before \<open>_overall_health\<close> is called.
\<close>

definition classify_health :: "config \<Rightarrow> real raster \<Rightarrow> weather option \<Rightarrow> error + classification" where
  "classify_health cfg ndvi weather_data =
     (let valid = valid_pixels ndvi;
          healthy_n = mask_sum (is_healthy cfg) valid;
          moderate_n = mask_sum (is_moderate cfg) valid;
          severe_n = mask_sum (is_severe cfg) valid;
          critical_n = mask_sum (is_critical cfg) valid;
          total_n = length valid;
          pc = \<lparr>healthy_px = healthy_n, moderate_stress_px = moderate_n,
                severe_stress_px = severe_n, critical_px = critical_n, total_px = total_n\<rparr>;
          pct = \<lparr>healthy = (if total_n > 0 then round1 (real healthy_n / real total_n * 100) else 0),
                 moderate_stress = (if total_n > 0 then round1 (real moderate_n / real total_n * 100) else 0),
                 severe_stress = (if total_n > 0 then round1 (real severe_n / real total_n * 100) else 0),
                 critical = (if total_n > 0 then round1 (real critical_n / real total_n * 100) else 0)\<rparr>
      in case np_min valid of
           Inl e \<Rightarrow> Inl e
         | Inr mn \<Rightarrow>
             (case np_max valid of
                Inl e \<Rightarrow> Inl e
              | Inr mx \<Rightarrow>
                  (let c = \<lparr>counts = pc,
                            pcts = pct,
                            overall = \<lparr>mean_o = np_mean valid, var_o = np_var valid,
                                       min_o = mn, max_o = mx\<rparr>,
                            overall_health =
                              overall_health_fn healthy_n moderate_n severe_n critical_n total_n,
                            alerts = [],
                            recommendations = []\<rparr>;
                       c = (case weather_data of
                              None \<Rightarrow> c
                            | Some w \<Rightarrow>
                                if nonempty_dict w
                                then c\<lparr>alerts := weather_correlated_alerts c w\<rparr>
                                else c);
                       c = c\<lparr>recommendations := generate_recommendations c\<rparr>
                   in Inr c)))"

section \<open>Plot segmentation (ai_models/segmentation.py)\<close>

text \<open>
  A region as \<open>skimage.measure.regionprops\<close> describes it: label, pixel count,
  bounding box \<open>(minr, minc, maxr, maxc)\<close>, centroid \<open>(row, col)\<close>, the
  intensity statistics of the NDVI samples inside it, eccentricity and solidity.
\<close>

record region =
  label :: int
  area :: int
  bbox :: "int \<times> int \<times> int \<times> int"
  centroid :: "real \<times> real"
  mean_intensity :: real
  min_intensity :: real
  max_intensity :: real
  eccentricity :: real
  solidity :: real

record health =
  class_name :: string
  color :: string

record bbox_geo_dict =
  south :: real
  west :: real
  north :: real
  east :: real

record centroid_dict =
  row :: int
  col :: int

record ndvi_stats_dict =
  mean_p :: real
  min_p :: real
  max_p :: real

record plot =
  id_p :: int
  area_pixels :: int
  bbox_geo :: bbox_geo_dict
  centroid_pixel :: centroid_dict
  ndvi_stats :: ndvi_stats_dict
  health_class :: string
  health_color :: string
  eccentricity_p :: real
  solidity_p :: real

record plot_summary =
  total_plots_s :: nat
  healthy_count :: nat
  moderate_stress_count :: nat
  severe_stress_count :: nat
  critical_count :: nat
  overall_mean_ndvi :: real
  overall_health_s :: string

text \<open>\<open>_summarize_plots\<close> returns \<open>{"total": 0}\<close> for no plots.\<close>

datatype summary = TotalZero | Summary plot_summary

record segmentation_result =
  total_plots :: nat
  plots :: "plot list"
  summary :: summary

text \<open>\<open>int(x)\<close> on a float truncates towards zero.\<close>

definition py_int :: "real \<Rightarrow> int" where
  "py_int x = (if x \<ge> 0 then \<lfloor>x\<rfloor> else \<lceil>x\<rceil>)"

definition classify_ndvi :: "config \<Rightarrow> real \<Rightarrow> health" where
  "classify_ndvi cfg ndvi_v =
     (if ndvi_v > NDVI_HEALTHY cfg then \<lparr>class_name = ''Healthy'', color = ''#2ecc71''\<rparr>
      else if ndvi_v > NDVI_MODERATE cfg then \<lparr>class_name = ''Moderate Stress'', color = ''#f39c12''\<rparr>
      else if ndvi_v > NDVI_SEVERE cfg then \<lparr>class_name = ''Severe Stress'', color = ''#e74c3c''\<rparr>
      else \<lparr>class_name = ''Critical'', color = ''#8e44ad''\<rparr>)"

definition summarize_plots :: "config \<Rightarrow> plot list \<Rightarrow> summary" where
  "summarize_plots cfg ps =
     (if ps = [] then TotalZero
      else let classes = map health_class ps;
               ndvi_values = map (\<lambda>p. mean_p (ndvi_stats p)) ps
           in Summary
                \<lparr>total_plots_s = length ps,
                 healthy_count = count_list classes ''Healthy'',
                 moderate_stress_count = count_list classes ''Moderate Stress'',
                 severe_stress_count = count_list classes ''Severe Stress'',
                 critical_count = count_list classes ''Critical'',
                 overall_mean_ndvi = np_mean ndvi_values,
                 overall_health_s = class_name (classify_ndvi cfg (np_mean ndvi_values))\<rparr>)"

text \<open>\<open>veg_mask = (ndvi > config.NDVI_SEVERE).astype(np.uint8)\<close>.\<close>

definition veg_mask :: "config \<Rightarrow> real raster \<Rightarrow> nat raster" where
  "veg_mask cfg ndvi = map (map (\<lambda>v. if v > NDVI_SEVERE cfg then 1 else 0)) ndvi"

text \<open>
  The body of the loop for one region that passes the area test.  \<open>xy r c\<close>
  is \<open>rasterio.transform.xy(transform, r, c, offset="center")\<close>, a pair \<open>(x, y)\<close>.
\<close>

definition make_plot :: "config \<Rightarrow> (int \<Rightarrow> int \<Rightarrow> real \<times> real) \<Rightarrow> region \<Rightarrow> plot" where
  "make_plot cfg xy rg =
     (case bbox rg of
        (minr, minc, maxr, maxc) \<Rightarrow>
          (let geo_min = xy maxr minc;
               geo_max = xy minr maxc;
               mean_ndvi_v = mean_intensity rg;
               hc = classify_ndvi cfg mean_ndvi_v
           in \<lparr>id_p = label rg,
               area_pixels = area rg,
               bbox_geo = \<lparr>south = snd geo_min, west = fst geo_min,
                            north = snd geo_max, east = fst geo_max\<rparr>,
               centroid_pixel = \<lparr>row = py_int (fst (centroid rg)), col = py_int (snd (centroid rg))\<rparr>,
               ndvi_stats = \<lparr>mean_p = mean_ndvi_v, min_p = min_intensity rg, max_p = max_intensity rg\<rparr>,
               health_class = class_name hc,
               health_color = color hc,
               eccentricity_p = eccentricity rg,
               solidity_p = solidity rg\<rparr>))"

text \<open>The loop over the regions: a region below the area threshold is skipped.\<close>

fun plots_loop :: "config \<Rightarrow> (int \<Rightarrow> int \<Rightarrow> real \<times> real) \<Rightarrow> int \<Rightarrow> region list \<Rightarrow> plot list" where
  "plots_loop cfg xy min_plot_area [] = []"
| "plots_loop cfg xy min_plot_area (rg # rgs) =
     (if area rg < min_plot_area then plots_loop cfg xy min_plot_area rgs
      else make_plot cfg xy rg # plots_loop cfg xy min_plot_area rgs)"

text \<open>
  \<open>segment_plots\<close>.  The library pipeline that turns the vegetation mask into
  regions (opening and closing with \<open>disk(3)\<close>, \<open>ndimage.label\<close>,
  \<open>regionprops\<close> with the NDVI raster as intensity image) is the parameter
  \<open>label_regions\<close>; \<open>regionprops\<close> lists the regions by ascending label.
\<close>

definition segment_plots ::
  "config \<Rightarrow> (nat raster \<Rightarrow> real raster \<Rightarrow> region list) \<Rightarrow> (int \<Rightarrow> int \<Rightarrow> real \<times> real) \<Rightarrow>
   real raster \<Rightarrow> int \<Rightarrow> segmentation_result" where
  "segment_plots cfg label_regions xy ndvi min_plot_area =
     (let mask = veg_mask cfg ndvi;
          regions = label_regions mask ndvi;
          ps = plots_loop cfg xy min_plot_area regions
      in \<lparr>total_plots = length ps, plots = ps, summary = summarize_plots cfg ps\<rparr>)"

text \<open>GeoJSON output of \<open>plots_to_geojson\<close>; a position is the list \<open>[x, y]\<close>.\<close>

record geometry =
  type_g :: string
  coordinates :: "real list list list"

record properties =
  plot_id :: int
  health_class_prop :: string
  health_color_prop :: string
  mean_ndvi :: real
  area_pixels_prop :: int

record feature =
  type_f :: string
  geometry_f :: geometry
  properties_f :: properties

record feature_collection =
  type_fc :: string
  features :: "feature list"

definition plot_feature :: "plot \<Rightarrow> feature" where
  "plot_feature p =
     (let b = bbox_geo p;
          coords = [[[west b, south b],
                     [east b, south b],
                     [east b, north b],
                     [west b, north b],
                     [west b, south b]]]
      in \<lparr>type_f = ''Feature'',
          geometry_f = \<lparr>type_g = ''Polygon'', coordinates = coords\<rparr>,
          properties_f = \<lparr>plot_id = id_p p,
                          health_class_prop = health_class p,
                          health_color_prop = health_color p,
                          mean_ndvi = mean_p (ndvi_stats p),
                          area_pixels_prop = area_pixels p\<rparr>\<rparr>)"

text \<open>
  The loop appends one feature per plot, in order.  The key \<open>plots\<close> is
  always present in a result of \<open>segment_plots\<close>.
\<close>

definition plots_to_geojson :: "segmentation_result \<Rightarrow> feature_collection" where
  "plots_to_geojson res =
     \<lparr>type_fc = ''FeatureCollection'', features = map plot_feature (plots res)\<rparr>"

section \<open>Pipeline runs (database/db_manager.py)\<close>

text \<open>A row of the table \<open>pipeline_runs\<close>; a NULL column is \<open>None\<close>.\<close>

record pipeline_run =
  id_r :: nat
  start_time :: string
  end_time :: "string option"
  status :: string
  imagery_id :: "int option"
  processing_time_s :: "real option"
  steps_completed :: "string option"
  error_message :: "string option"

text \<open>The table and its AUTOINCREMENT counter; the other tables are not modelled.\<close>

record db =
  pipeline_runs :: "pipeline_run list"
  run_seq :: nat

text \<open>\<open>now\<close> is the result of \<open>datetime.utcnow().isoformat()\<close> at the call.\<close>

definition start_pipeline_run :: "string \<Rightarrow> db \<Rightarrow> nat \<times> db" where
  "start_pipeline_run now d =
     (let lastrowid = run_seq d + 1;
          new_row = \<lparr>id_r = lastrowid, start_time = now, end_time = None, status = ''running'',
                     imagery_id = None, processing_time_s = None, steps_completed = None,
                     error_message = None\<rparr>
      in (lastrowid, d\<lparr>pipeline_runs := pipeline_runs d @ [new_row], run_seq := lastrowid\<rparr>))"

text \<open>\<open>"failed" if error else "completed"\<close>: None and the empty string are both false.\<close>

definition run_status :: "string option \<Rightarrow> string" where
  "run_status err =
     (case err of
        None \<Rightarrow> ''completed''
      | Some m \<Rightarrow> if m \<noteq> [] then ''failed'' else ''completed'')"

definition complete_pipeline_run ::
  "string \<Rightarrow> db \<Rightarrow> nat \<Rightarrow> int option \<Rightarrow> real \<Rightarrow> string \<Rightarrow> string option \<Rightarrow> db" where
  "complete_pipeline_run now d run_id img_id processing_time steps err =
     (let st = run_status err
      in d\<lparr>pipeline_runs :=
             map (\<lambda>r. if id_r r = run_id
                       then r\<lparr>end_time := Some now, status := st, imagery_id := img_id,
                              processing_time_s := Some processing_time,
                              steps_completed := Some steps, error_message := err\<rparr>
                       else r)
               (pipeline_runs d)\<rparr>)"

section \<open>Orchestrator (data_ingestion/pipeline_scheduler.py)\<close>

text \<open>An exception caught by \<open>except Exception as e\<close>, with \<open>str(e)\<close>.\<close>

datatype exn = Exception string

fun str :: "exn \<Rightarrow> string" where
  "str (Exception m) = m"

definition bind :: "exn + 'a \<Rightarrow> ('a \<Rightarrow> exn + 'b) \<Rightarrow> exn + 'b" where
  "bind m f = (case m of Inl e \<Rightarrow> Inl e | Inr x \<Rightarrow> f x)"

text \<open>The ValueError of a zero-size reduction, as the exception it is raised as.\<close>

fun raise_error :: "error + 'a \<Rightarrow> exn + 'a" where
  "raise_error (Inl ValueError) =
     Inl (Exception ''zero-size array to reduction operation minimum which has no identity'')"
| "raise_error (Inr x) = Inr x"

text \<open>
  The imagery metadata; the entries that no step reads back (bounding box,
  CRS, band names, image size) are left out.
\<close>

record metadata =
  file_path :: string
  source :: string
  timestamp :: string

text \<open>
  The collaborators of one run: the clock readings, the fetchers, the inserts
  into the other tables, the raster reader and the writers.  Each call either
  returns or raises.  The NDVI file read back by the classifier and the
  segmenter is the raster \<open>calculate_ndvi\<close> wrote.
\<close>

record env =
  config_e :: config
  now_start :: string
  now_ingest :: string
  now_end :: string
  time_start :: real
  time_end :: real
  fetch_sentinel_imagery :: "exn + metadata"
  insert_imagery :: "metadata \<Rightarrow> exn + int"
  fetch_weather :: "exn + weather"
  insert_weather :: "weather \<Rightarrow> exn + unit"
  read_bands :: "string \<Rightarrow> exn + pixel raster"
  insert_ndvi_result :: "int \<Rightarrow> statistics \<Rightarrow> exn + int"
  ndvi_to_rgb :: "real raster \<Rightarrow> exn + unit"
  create_rgb_composite :: "string \<Rightarrow> exn + unit"
  insert_health_assessment :: "int \<Rightarrow> classification \<Rightarrow> exn + unit"
  label_regions_e :: "nat raster \<Rightarrow> real raster \<Rightarrow> region list"
  xy_e :: "int \<Rightarrow> int \<Rightarrow> real \<times> real"
  write_geojson :: "feature_collection \<Rightarrow> exn + unit"

record step_values =
  img_id_v :: int
  ndvi_mean_v :: real
  overall_health_v :: string
  plots_found_v :: nat
  alerts_v :: "alert list"

text \<open>The statements of the \<open>try\<close> block up to the completion of the run.\<close>

definition try_steps :: "env \<Rightarrow> string option \<Rightarrow> exn + step_values" where
  "try_steps en image_path =
     bind (case image_path of
             None \<Rightarrow> fetch_sentinel_imagery en
           | Some p \<Rightarrow>
               if p \<noteq> []
               then Inr \<lparr>file_path = p, source = ''upload'', timestamp = now_ingest en\<rparr>
               else fetch_sentinel_imagery en) (\<lambda>md.
     bind (insert_imagery en md) (\<lambda>img_id.
     bind (fetch_weather en) (\<lambda>w.
     bind (insert_weather en w) (\<lambda>_.
     bind (read_bands en (file_path md)) (\<lambda>img.
       (case calculate_ndvi (config_e en) img of
          (ndvi_file, stats_or_error) \<Rightarrow>
     bind (raise_error stats_or_error) (\<lambda>ndvi_stats_v.
     bind (insert_ndvi_result en img_id ndvi_stats_v) (\<lambda>ndvi_id.
     bind (ndvi_to_rgb en ndvi_file) (\<lambda>_.
     bind (create_rgb_composite en (file_path md)) (\<lambda>_.
     bind (raise_error (classify_health (config_e en) ndvi_file (Some w))) (\<lambda>c.
     bind (insert_health_assessment en ndvi_id c) (\<lambda>_.
       (let segmentation = segment_plots (config_e en) (label_regions_e en) (xy_e en) ndvi_file 100;
            geojson = plots_to_geojson segmentation
        in bind (write_geojson en geojson) (\<lambda>_.
             Inr \<lparr>img_id_v = img_id,
                  ndvi_mean_v = mean_s ndvi_stats_v,
                  overall_health_v = overall_health c,
                  plots_found_v = total_plots segmentation,
                  alerts_v = alerts c\<rparr>))))))))))))))"

datatype run_result =
  RunCompleted nat real real string nat "alert list"
| RunFailed string nat

text \<open>The \<open>status\<close> entry of the returned dictionary.\<close>

fun result_status :: "run_result \<Rightarrow> string" where
  "result_status (RunCompleted rid t m h n al) = ''completed''"
| "result_status (RunFailed e rid) = ''failed''"

definition run_pipeline :: "env \<Rightarrow> db \<Rightarrow> string option \<Rightarrow> db \<times> run_result" where
  "run_pipeline en d image_path =
     (case start_pipeline_run (now_start en) d of
        (run_id, d1) \<Rightarrow>
          (let start = time_start en
           in case try_steps en image_path of
                Inr v \<Rightarrow>
                  (let elapsed = time_end en - start;
                       d2 = complete_pipeline_run (now_end en) d1 run_id (Some (img_id_v v))
                              elapsed ''ingest,weather,ndvi,classify,segment'' None
                   in (d2, RunCompleted run_id (round1 elapsed) (ndvi_mean_v v)
                             (overall_health_v v) (plots_found_v v) (alerts_v v)))
              | Inl e \<Rightarrow>
                  (let elapsed = time_end en - start;
                       d2 = complete_pipeline_run (now_end en) d1 run_id None elapsed [] (Some (str e))
                   in (d2, RunFailed (str e) run_id))))"

text \<open>The row of a run in the table.\<close>

definition find_run :: "db \<Rightarrow> nat \<Rightarrow> pipeline_run option" where
  "find_run d rid = find (\<lambda>r. id_r r = rid) (pipeline_runs d)"

section \<open>Predicates used in the statements\<close>

text \<open>
  The three readings the alert rules look up in the weather dictionary, each
  \<open>None\<close> when its key (or the dictionary holding it) is missing.
\<close>

definition moisture_of :: "weather \<Rightarrow> real option" where
  "moisture_of w = (case soil w of None \<Rightarrow> None | Some s \<Rightarrow> moisture s)"

definition humidity_of :: "weather \<Rightarrow> real option" where
  "humidity_of w = (case current w of None \<Rightarrow> None | Some c \<Rightarrow> humidity_pct c)"

definition temperature_of :: "weather \<Rightarrow> real option" where
  "temperature_of w = (case current w of None \<Rightarrow> None | Some c \<Rightarrow> temperature_c c)"


text \<open>
  The weather dictionary has none of the keys read by the alert rules: soil
  moisture, humidity and temperature.
\<close>

definition lacks_weather_keys :: "weather \<Rightarrow> bool" where
  "lacks_weather_keys w =
     ((case soil w of None \<Rightarrow> True | Some s \<Rightarrow> moisture s = None)
      \<and> (case current w of
           None \<Rightarrow> True
         | Some c \<Rightarrow> humidity_pct c = None \<and> temperature_c c = None))"

section \<open>Example inputs\<close>

text \<open>
  A 2 x 2 image: the boundary pixel (NIR 8000, red 2000), a pixel with both
  bands zero, a pixel with a negative red sample and a pixel with more red
  than near infrared.
\<close>

definition example_image :: "pixel raster" where
  "example_image =
     [[\<lparr>B02 = 0, B03 = 0, B04 = 2000, B08 = 8000\<rparr>, \<lparr>B02 = 0, B03 = 0, B04 = 0, B08 = 0\<rparr>],
      [\<lparr>B02 = 0, B03 = 0, B04 = - 1, B08 = 3\<rparr>, \<lparr>B02 = 0, B03 = 0, B04 = 500, B08 = 100\<rparr>]]"

text \<open>The 1 x 1 image of the boundary scenario.\<close>

definition boundary_image :: "pixel raster" where
  "boundary_image = [[\<lparr>B02 = 0, B03 = 0, B04 = 2000, B08 = 8000\<rparr>]]"

text \<open>An NDVI raster with 4 healthy, 3 moderate, 2 severe and 1 critical sample.\<close>

definition example_ndvi :: "real raster" where
  "example_ndvi = [[5 / 10, 5 / 10, 2 / 10, 2 / 10, 7 / 10], [7 / 10, 7 / 10, 7 / 10, 0, 5 / 10]]"

text \<open>A weather dictionary without moisture, humidity or temperature.\<close>

definition example_weather :: weather where
  "example_weather =
     \<lparr>soil = Some \<lparr>moisture = None\<rparr>, current = None, other_keys = [''precipitation'']\<rparr>"

text \<open>A weather dictionary with humidity 85 and no temperature or soil moisture.\<close>

definition humid_weather :: weather where
  "humid_weather =
     \<lparr>soil = None, current = Some \<lparr>humidity_pct = Some 85, temperature_c = None\<rparr>, other_keys = []\<rparr>"

text \<open>
  Three regions with ascending labels and areas 150, 40 and 100, and a
  transform with unit pixels whose \<open>y\<close> axis points up.
\<close>

definition example_regions :: "region list" where
  "example_regions =
     [\<lparr>label = 1, area = 150, bbox = (0, 0, 10, 15), centroid = (9 / 2, 7), mean_intensity = 7 / 10,
       min_intensity = 2 / 10, max_intensity = 9 / 10, eccentricity = 1 / 2, solidity = 1\<rparr>,
      \<lparr>label = 2, area = 40, bbox = (20, 0, 25, 8), centroid = (22, 7 / 2), mean_intensity = 4 / 10,
       min_intensity = 2 / 10, max_intensity = 5 / 10, eccentricity = 1 / 2, solidity = 1\<rparr>,
      \<lparr>label = 3, area = 100, bbox = (30, 20, 40, 30), centroid = (69 / 2, 49 / 2), mean_intensity = 2 / 10,
       min_intensity = 2 / 10, max_intensity = 2 / 10, eccentricity = 0, solidity = 1\<rparr>]"

definition example_xy :: "int \<Rightarrow> int \<Rightarrow> real \<times> real" where
  "example_xy r c = (of_int c + 1 / 2, - (of_int r + 1 / 2))"

definition example_segmentation :: segmentation_result where
  "example_segmentation =
     segment_plots default_config (\<lambda>mask ndvi. example_regions) example_xy example_ndvi 100"

text \<open>
  An empty run table, and a run in which the weather fetch raises an exception
  whose message is the empty string (as \<open>raise Exception()\<close> does) while
  every other collaborator returns.
\<close>

definition empty_db :: db where
  "empty_db = \<lparr>pipeline_runs = [], run_seq = 0\<rparr>"

definition failing_env :: env where
  "failing_env =
     \<lparr>config_e = default_config,
      now_start = ''2024-05-01T10:00:00'',
      now_ingest = ''2024-05-01T10:00:01'',
      now_end = ''2024-05-01T10:00:02'',
      time_start = 100,
      time_end = 205 / 2,
      fetch_sentinel_imagery =
        Inr \<lparr>file_path = ''sentinel.tif'', source = ''synthetic'', timestamp = ''2024-05-01T09:00:00''\<rparr>,
      insert_imagery = (\<lambda>md. Inr 1),
      fetch_weather = Inl (Exception []),
      insert_weather = (\<lambda>w. Inr ()),
      read_bands = (\<lambda>path. Inr example_image),
      insert_ndvi_result = (\<lambda>i st. Inr 1),
      ndvi_to_rgb = (\<lambda>r. Inr ()),
      create_rgb_composite = (\<lambda>path. Inr ()),
      insert_health_assessment = (\<lambda>i c. Inr ()),
      label_regions_e = (\<lambda>mask ndvi. example_regions),
      xy_e = example_xy,
      write_geojson = (\<lambda>fc. Inr ())\<rparr>"

section \<open>Properties of the NDVI calculator\<close>

lemma np_clip_bounds: "- 1 \<le> np_clip x (- 1) 1 \<and> np_clip x (- 1) 1 \<le> 1"
  by (simp add: np_clip_def)

lemma ndvi_value_bounds: "- 1 \<le> ndvi_value n r \<and> ndvi_value n r \<le> 1"
  unfolding ndvi_value_def by (rule np_clip_bounds)

lemma ndvi_array_bounds:
  assumes "v \<in> set (concat (ndvi_array img))"
  shows "- 1 \<le> v \<and> v \<le> 1"
  using assms ndvi_value_bounds by (auto simp: ndvi_array_def)

lemma valid_pixels_ndvi_array: "valid_pixels (ndvi_array img) = concat (ndvi_array img)"
proof -
  have "\<forall>v \<in> set (concat (ndvi_array img)). v > - 9999"
    using ndvi_array_bounds by fastforce
  then show ?thesis
    unfolding valid_pixels_def by (simp add: filter_id_conv)
qed

lemma ndvi_example_image:
  "fst (calculate_ndvi default_config example_image) = [[6 / 10, 0], [1, - 2 / 3]]"
  by (simp add: example_image_def calculate_ndvi_def ndvi_array_def ndvi_value_def
      ndvi_where_def np_clip_def Let_def)

text \<open>
  C1.  Every value of the raster computed by \<open>calculate_ndvi\<close> lies in
  \<open>[-1, 1]\<close>.  The statistics are computed from the selection \<open>valid\<close> only;
  for the computed raster the selection keeps every sample, and for any raster
  at all the selection never contains the sentinel \<open>-9999\<close>.
\<close>

theorem ndvi_clamped_and_sentinel_excluded:
  "(\<forall>v \<in> set (concat (fst (calculate_ndvi cfg img))). - 1 \<le> v \<and> v \<le> 1)
   \<and> snd (calculate_ndvi cfg img)
       = compute_statistics cfg (valid_pixels (fst (calculate_ndvi cfg img)))
   \<and> valid_pixels (fst (calculate_ndvi cfg img)) = concat (fst (calculate_ndvi cfg img))
   \<and> (\<forall>v \<in> set (valid_pixels ndvi). v \<noteq> - 9999)"
proof -
  have a: "fst (calculate_ndvi cfg img) = ndvi_array img"
    by (simp add: calculate_ndvi_def Let_def)
  have b: "snd (calculate_ndvi cfg img) = compute_statistics cfg (valid_pixels (ndvi_array img))"
    by (simp add: calculate_ndvi_def Let_def)
  have c: "\<forall>v \<in> set (valid_pixels ndvi). v \<noteq> - 9999"
    by (simp add: valid_pixels_def)
  show ?thesis
    using a b c ndvi_array_bounds valid_pixels_ndvi_array by auto
qed

theorem ndvi_clamped_witness:
  "fst (calculate_ndvi default_config example_image) = [[6 / 10, 0], [1, - 2 / 3]]
   \<and> list_all (\<lambda>v. - 1 \<le> v \<and> v \<le> 1) (concat (fst (calculate_ndvi default_config example_image)))
   \<and> valid_pixels [[- 9999, 5 / 10]] = [5 / 10]"
  using ndvi_clamped_and_sentinel_excluded[of default_config example_image "[[- 9999, 5 / 10]]"]
  by (simp add: ndvi_example_image valid_pixels_def)

lemma class_partition:
  assumes "ordered_thresholds cfg"
  shows "(if is_healthy cfg v then 1 else 0) + (if is_moderate cfg v then 1 else 0)
       + (if is_severe cfg v then 1 else 0) + (if is_critical cfg v then 1 else (0::nat)) = 1"
  using assms
  by (auto simp: ordered_thresholds_def is_healthy_def is_moderate_def is_severe_def is_critical_def)

lemma class_counts_sum:
  assumes "ordered_thresholds cfg"
  shows "length (filter (is_healthy cfg) xs) + length (filter (is_moderate cfg) xs)
       + length (filter (is_severe cfg) xs) + length (filter (is_critical cfg) xs) = length xs"
proof (induction xs)
  case Nil
  then show ?case by simp
next
  case (Cons x xs)
  from class_partition[OF assms, of x] Cons show ?case
    by (simp split: if_splits)
qed

lemma compute_statistics_Inr:
  assumes "compute_statistics cfg valid = Inr st"
  shows "valid \<noteq> [] \<and> total_pixels st = length valid
     \<and> healthy_pct st = mask_mean_pct (is_healthy cfg) valid
     \<and> moderate_stress_pct st = mask_mean_pct (is_moderate cfg) valid
     \<and> severe_stress_pct st = mask_mean_pct (is_severe cfg) valid
     \<and> critical_pct st = mask_mean_pct (is_critical cfg) valid"
  using assms
  by (cases valid) (auto simp: compute_statistics_def)

lemma compute_statistics_nonempty:
  assumes "valid \<noteq> []"
  shows "\<exists>st. compute_statistics cfg valid = Inr st"
  using assms by (cases valid) (simp_all add: compute_statistics_def)

lemma pct_sum:
  assumes "ordered_thresholds cfg" and "valid \<noteq> []"
  shows "mask_mean_pct (is_healthy cfg) valid + mask_mean_pct (is_moderate cfg) valid
       + mask_mean_pct (is_severe cfg) valid + mask_mean_pct (is_critical cfg) valid = 100"
proof -
  let ?n = "real (length valid)"
  have n: "?n > 0" using assms(2) by simp
  have "real (length (filter (is_healthy cfg) valid)) + real (length (filter (is_moderate cfg) valid))
       + real (length (filter (is_severe cfg) valid)) + real (length (filter (is_critical cfg) valid)) = ?n"
    using class_counts_sum[OF assms(1), of valid] by (metis of_nat_add)
  then have "(real (length (filter (is_healthy cfg) valid)) + real (length (filter (is_moderate cfg) valid))
       + real (length (filter (is_severe cfg) valid)) + real (length (filter (is_critical cfg) valid))) / ?n * 100 = 100"
    using n by simp
  then show ?thesis
    unfolding mask_mean_pct_def by (simp add: add_divide_distrib distrib_right)
qed

text \<open>
  C2.  With ordered thresholds, every sample falls in exactly one of the four
  classes, so for every statistics result of \<open>calculate_ndvi\<close> with
  \<open>total_pixels > 0\<close> the four percentages sum to 100 (exactly, in exact
  arithmetic, hence within 0.1).
\<close>

theorem percentages_sum_to_100:
  assumes "ordered_thresholds cfg"
    and "snd (calculate_ndvi cfg img) = Inr st"
    and "total_pixels st > 0"
  shows "healthy_pct st + moderate_stress_pct st + severe_stress_pct st + critical_pct st = 100
       \<and> \<bar>healthy_pct st + moderate_stress_pct st + severe_stress_pct st + critical_pct st - 100\<bar> \<le> 1 / 10
       \<and> (if is_healthy cfg v then 1 else 0) + (if is_moderate cfg v then 1 else 0)
         + (if is_severe cfg v then 1 else 0) + (if is_critical cfg v then 1 else (0::nat)) = 1"
proof -
  let ?valid = "valid_pixels (ndvi_array img)"
  have cs: "compute_statistics cfg ?valid = Inr st"
    using assms(2) by (simp add: calculate_ndvi_def Let_def)
  note f = compute_statistics_Inr[OF cs]
  have "healthy_pct st + moderate_stress_pct st + severe_stress_pct st + critical_pct st = 100"
    using f pct_sum[OF assms(1), of ?valid] by simp
  then show ?thesis using class_partition[OF assms(1)] by simp
qed

theorem percentages_sum_witness:
  "ordered_thresholds default_config
   \<and> (\<exists>st. snd (calculate_ndvi default_config example_image) = Inr st \<and> total_pixels st = 4
        \<and> healthy_pct st + moderate_stress_pct st + severe_stress_pct st + critical_pct st = 100)"
proof -
  have o: "ordered_thresholds default_config"
    by (simp add: ordered_thresholds_def default_config_def)
  have v: "valid_pixels (fst (calculate_ndvi default_config example_image)) = [6 / 10, 0, 1, - 2 / 3]"
    by (simp add: ndvi_example_image valid_pixels_def)
  have s: "snd (calculate_ndvi default_config example_image)
             = compute_statistics default_config [6 / 10, 0, 1, - 2 / 3]"
    using v by (simp add: calculate_ndvi_def Let_def)
  obtain st where st: "compute_statistics default_config [6 / 10, 0, 1, - 2 / 3] = Inr st"
    using compute_statistics_nonempty[of "[6 / 10, 0, 1, - 2 / 3]" default_config] by auto
  have n: "total_pixels st = 4"
    using compute_statistics_Inr[OF st] by simp
  have r: "snd (calculate_ndvi default_config example_image) = Inr st"
    using s st by simp
  have "healthy_pct st + moderate_stress_pct st + severe_stress_pct st + critical_pct st = 100"
    using percentages_sum_to_100[OF o r] n by simp
  then show ?thesis using o r n by blast
qed

text \<open>
  C4.  The pixel with NIR 8000 and red 2000 has index 0.6, equal to the
  Healthy threshold; the Healthy test is strict, so the pixel is counted as
  Moderate Stress: of the one-pixel image, 0 percent is healthy and 100
  percent is moderately stressed.
\<close>

theorem boundary_pixel_is_moderate:
  "ndvi_where 8000 2000 = 6 / 10
   \<and> fst (calculate_ndvi default_config boundary_image) = [[6 / 10]]
   \<and> NDVI_HEALTHY default_config = 6 / 10
   \<and> \<not> is_healthy default_config (6 / 10)
   \<and> is_moderate default_config (6 / 10)
   \<and> (case snd (calculate_ndvi default_config boundary_image) of
         Inl e \<Rightarrow> False
       | Inr st \<Rightarrow> healthy_pct st = 0 \<and> moderate_stress_pct st = 100
                   \<and> severe_stress_pct st = 0 \<and> critical_pct st = 0 \<and> total_pixels st = 1)"
  by (simp add: boundary_image_def calculate_ndvi_def ndvi_array_def ndvi_value_def ndvi_where_def
      np_clip_def valid_pixels_def compute_statistics_def default_config_def mask_mean_pct_def
      is_healthy_def is_moderate_def is_severe_def is_critical_def Let_def)


text \<open>
  On bands without negative samples (as the unsigned imagery of the pipeline)
  the raster holds, pixel by pixel, the quotient where the denominator is
  nonzero and 0 elsewhere, and never the sentinel.
\<close>

lemma ndvi_where_nonneg:
  assumes "0 \<le> n" and "0 \<le> r"
  shows "ndvi_where n r = (if n + r \<noteq> 0 then (n - r) / (n + r) else 0)
       \<and> - 1 \<le> ndvi_where n r \<and> ndvi_where n r \<le> 1"
proof (cases "n + r > 0")
  case True
  have "- (n + r) \<le> n - r" "n - r \<le> n + r" using assms by simp_all
  then have "- 1 \<le> (n - r) / (n + r)" "(n - r) / (n + r) \<le> 1"
    using True by (simp_all add: pos_le_divide_eq pos_divide_le_eq)
  then show ?thesis using True by (simp add: ndvi_where_def Let_def)
next
  case False
  then have "n + r = 0" using assms by simp
  then show ?thesis by (simp add: ndvi_where_def Let_def)
qed

lemma ndvi_value_nonneg:
  assumes "0 \<le> n" and "0 \<le> r"
  shows "ndvi_value n r = (if n + r \<noteq> 0 then (n - r) / (n + r) else 0)"
proof -
  from ndvi_where_nonneg[OF assms]
  have w: "ndvi_where n r = (if n + r \<noteq> 0 then (n - r) / (n + r) else 0)"
    and lo: "- 1 \<le> ndvi_where n r" and hi: "ndvi_where n r \<le> 1" by simp_all
  have "ndvi_value n r = ndvi_where n r"
    using lo hi by (simp add: ndvi_value_def np_clip_def)
  then show ?thesis using w by simp
qed

lemma ndvi_raster_nonnegative_bands:
  assumes "\<forall>p \<in> set (concat img). 0 \<le> B04 p \<and> 0 \<le> B08 p"
  shows "fst (calculate_ndvi cfg img) =
           map (map (\<lambda>p. if B08 p + B04 p \<noteq> 0
                          then (B08 p - B04 p) / (B08 p + B04 p) else 0)) img
       \<and> - 9999 \<notin> set (concat (fst (calculate_ndvi cfg img)))"
proof -
  have "map (map (\<lambda>p. ndvi_value (B08 p) (B04 p))) img =
        map (map (\<lambda>p. if B08 p + B04 p \<noteq> 0
                          then (B08 p - B04 p) / (B08 p + B04 p) else 0)) img"
    using assms by (intro map_cong refl) (auto simp: ndvi_value_nonneg)
  then have a: "fst (calculate_ndvi cfg img) =
           map (map (\<lambda>p. if B08 p + B04 p \<noteq> 0
                          then (B08 p - B04 p) / (B08 p + B04 p) else 0)) img"
    by (simp add: calculate_ndvi_def ndvi_array_def Let_def)
  have "- 9999 \<notin> set (concat (ndvi_array img))"
    using ndvi_array_bounds[of "- 9999" img] by auto
  then have b: "- 9999 \<notin> set (concat (fst (calculate_ndvi cfg img)))"
    by (simp add: calculate_ndvi_def Let_def)
  from a b show ?thesis by simp
qed


section \<open>Properties of the health classifier\<close>

lemma classify_health_fails_iff:
  "classify_health cfg ndvi wd = Inl e \<longleftrightarrow> valid_pixels ndvi = []"
proof (cases "valid_pixels ndvi")
  case Nil
  then show ?thesis by (cases e) (simp add: classify_health_def Let_def)
next
  case (Cons x xs)
  then show ?thesis by (simp add: classify_health_def Let_def)
qed

text \<open>
  C3.  On a raster whose only sample is the sentinel \<open>-9999\<close> the selection
  is empty and \<open>classify_health\<close> raises ValueError (from \<open>np.min\<close>) instead
  of returning the "No Data" result that \<open>_overall_health\<close> and the guarded
  percentages provide for \<open>total = 0\<close>.
\<close>

theorem classify_health_empty_raises:
  "valid_pixels [[- 9999]] = []
   \<and> classify_health default_config [[- 9999]] None = Inl ValueError
   \<and> overall_health_fn 0 0 0 0 0 = ''No Data''"
  by (simp add: valid_pixels_def classify_health_def overall_health_fn_def Let_def)

lemma recs_distinct:
  "field_inspection p \<noteq> soil_nutrient_test" "field_inspection p \<noteq> targeted_treatment"
  "field_inspection p \<noteq> routine_monitoring" "field_inspection p \<noteq> schedule_next_scan"
  "soil_nutrient_test \<noteq> targeted_treatment" "soil_nutrient_test \<noteq> routine_monitoring"
  "soil_nutrient_test \<noteq> schedule_next_scan" "targeted_treatment \<noteq> routine_monitoring"
  "targeted_treatment \<noteq> schedule_next_scan" "routine_monitoring \<noteq> schedule_next_scan"
  by (simp_all add: field_inspection_def soil_nutrient_test_def targeted_treatment_def
      routine_monitoring_def schedule_next_scan_def)

lemma generate_recommendations_eq:
  "generate_recommendations c =
     (let rules = (if critical (pcts c) > 15 then [field_inspection (pcts c)] else [])
                @ (if severe_stress (pcts c) > 25 then [soil_nutrient_test] else [])
                @ (if moderate_stress (pcts c) > 30 then [targeted_treatment] else [])
                @ (if healthy (pcts c) > 70 then [routine_monitoring] else [])
      in if rules = [] then [schedule_next_scan] else rules)"
  by (simp add: generate_recommendations_def Let_def)

lemma generate_recommendations_nonempty: "generate_recommendations c \<noteq> []"
  by (simp add: generate_recommendations_eq Let_def)

lemma classify_health_recommendations:
  assumes "classify_health cfg ndvi wd = Inr r"
  shows "\<exists>c. recommendations r = generate_recommendations c \<and> pcts c = pcts r"
  using assms
  by (auto simp: classify_health_def Let_def split: sum.splits option.splits if_splits)

text \<open>
  C8.  The recommendation list is never empty, for any classification and so
  for every result of \<open>classify_health\<close>.  Each of the four rules contributes
  its recommendation exactly when its own threshold is exceeded; when none is,
  the list is the single MEDIUM "Schedule Next Scan", which appears in no other
  case.
\<close>

theorem recommendations_never_empty:
  "generate_recommendations c \<noteq> []
   \<and> (classify_health cfg ndvi wd = Inr r \<longrightarrow> recommendations r \<noteq> [])
   \<and> (field_inspection (pcts c) \<in> set (generate_recommendations c) \<longleftrightarrow> critical (pcts c) > 15)
   \<and> (soil_nutrient_test \<in> set (generate_recommendations c) \<longleftrightarrow> severe_stress (pcts c) > 25)
   \<and> (targeted_treatment \<in> set (generate_recommendations c) \<longleftrightarrow> moderate_stress (pcts c) > 30)
   \<and> (routine_monitoring \<in> set (generate_recommendations c) \<longleftrightarrow> healthy (pcts c) > 70)
   \<and> (\<not> critical (pcts c) > 15 \<and> \<not> severe_stress (pcts c) > 25
        \<and> \<not> moderate_stress (pcts c) > 30 \<and> \<not> healthy (pcts c) > 70
      \<longrightarrow> generate_recommendations c = [schedule_next_scan])
   \<and> (schedule_next_scan \<in> set (generate_recommendations c)
      \<longrightarrow> generate_recommendations c = [schedule_next_scan])
   \<and> priority schedule_next_scan = ''MEDIUM'' \<and> action schedule_next_scan = ''Schedule Next Scan''"
proof -
  have a: "generate_recommendations c \<noteq> []" by (rule generate_recommendations_nonempty)
  have b: "classify_health cfg ndvi wd = Inr r \<longrightarrow> recommendations r \<noteq> []"
    using classify_health_recommendations generate_recommendations_nonempty by metis
  have c1: "field_inspection (pcts c) \<in> set (generate_recommendations c) \<longleftrightarrow> critical (pcts c) > 15"
    using recs_distinct recs_distinct[symmetric] by (auto simp: generate_recommendations_eq Let_def)
  have c2: "soil_nutrient_test \<in> set (generate_recommendations c) \<longleftrightarrow> severe_stress (pcts c) > 25"
    using recs_distinct recs_distinct[symmetric] by (auto simp: generate_recommendations_eq Let_def)
  have c3: "targeted_treatment \<in> set (generate_recommendations c) \<longleftrightarrow> moderate_stress (pcts c) > 30"
    using recs_distinct recs_distinct[symmetric] by (auto simp: generate_recommendations_eq Let_def)
  have c4: "routine_monitoring \<in> set (generate_recommendations c) \<longleftrightarrow> healthy (pcts c) > 70"
    using recs_distinct recs_distinct[symmetric] by (auto simp: generate_recommendations_eq Let_def)
  have d: "\<not> critical (pcts c) > 15 \<and> \<not> severe_stress (pcts c) > 25
        \<and> \<not> moderate_stress (pcts c) > 30 \<and> \<not> healthy (pcts c) > 70
      \<longrightarrow> generate_recommendations c = [schedule_next_scan]"
    by (simp add: generate_recommendations_eq Let_def)
  have e: "schedule_next_scan \<in> set (generate_recommendations c)
      \<longrightarrow> generate_recommendations c = [schedule_next_scan]"
    using recs_distinct recs_distinct[symmetric] by (auto simp: generate_recommendations_eq Let_def split: if_splits)
  have f: "priority schedule_next_scan = ''MEDIUM'' \<and> action schedule_next_scan = ''Schedule Next Scan''"
    by (simp add: schedule_next_scan_def)
  from a b c1 c2 c3 c4 d e f show ?thesis by blast
qed




lemma rint_evals: "rint 400 = 400" "rint 300 = 300" "rint 200 = 200" "rint 100 = 100"
  by (simp_all add: rint_def Let_def)

lemma classify_example:
  "classify_health default_config example_ndvi None =
     Inr \<lparr>counts = \<lparr>healthy_px = 4, moderate_stress_px = 3, severe_stress_px = 2,
                    critical_px = 1, total_px = 10\<rparr>,
          pcts = \<lparr>healthy = 40, moderate_stress = 30, severe_stress = 20, critical = 10\<rparr>,
          overall = \<lparr>mean_o = 47 / 100, var_o = 581 / 10000, min_o = 0, max_o = 7 / 10\<rparr>,
          overall_health = ''Poor'',
          alerts = [],
          recommendations = [schedule_next_scan]\<rparr>"
  by (simp add: classify_health_def example_ndvi_def valid_pixels_def default_config_def
      mask_sum_def is_healthy_def is_moderate_def is_severe_def is_critical_def
      round1_def rint_evals np_mean_def np_var_def overall_health_fn_def
      generate_recommendations_def Let_def power2_eq_square)

theorem recommendations_never_empty_witness:
  "(\<exists>r. classify_health default_config example_ndvi None = Inr r
        \<and> recommendations r = [schedule_next_scan]
        \<and> generate_recommendations r = [schedule_next_scan]
        \<and> critical (pcts r) = 10 \<and> severe_stress (pcts r) = 20
        \<and> moderate_stress (pcts r) = 30 \<and> healthy (pcts r) = 40)"
proof -
  define r where "r = (case classify_health default_config example_ndvi None of Inr x \<Rightarrow> x)"
  have r: "classify_health default_config example_ndvi None = Inr r"
    unfolding r_def by (simp add: classify_example)
  have p: "critical (pcts r) = 10" "severe_stress (pcts r) = 20"
    "moderate_stress (pcts r) = 30" "healthy (pcts r) = 40"
    unfolding r_def by (simp_all add: classify_example)
  have q: "recommendations r = [schedule_next_scan]"
    unfolding r_def by (simp add: classify_example)
  have d: "\<not> critical (pcts r) > 15 \<and> \<not> severe_stress (pcts r) > 25
        \<and> \<not> moderate_stress (pcts r) > 30 \<and> \<not> healthy (pcts r) > 70
      \<longrightarrow> generate_recommendations r = [schedule_next_scan]"
    using recommendations_never_empty[of r default_config example_ndvi None r] by blast
  have "generate_recommendations r = [schedule_next_scan]"
    using d p by simp
  then show ?thesis using r p q by blast
qed


lemma alerts_of_missing_keys:
  assumes "lacks_weather_keys w"
  shows "weather_correlated_alerts c w = []"
  using assms
  by (auto simp: lacks_weather_keys_def weather_correlated_alerts_def get_default_def Let_def
      split: option.splits)

lemma classify_health_alerts:
  assumes "classify_health cfg ndvi (Some w) = Inr r"
  shows "alerts r = [] \<or> (\<exists>c. alerts r = weather_correlated_alerts c w)"
  using assms
  by (auto simp: classify_health_def Let_def split: sum.splits if_splits)

lemma alerts_depend_on_pcts:
  assumes "pcts c = pcts c'"
  shows "weather_correlated_alerts c w = weather_correlated_alerts c' w"
  using assms by (simp add: weather_correlated_alerts_def)

lemma recommendations_depend_on_pcts:
  assumes "pcts c = pcts c'"
  shows "generate_recommendations c = generate_recommendations c'"
  using assms by (simp add: generate_recommendations_def)

lemma classify_health_weather:
  "classify_health cfg ndvi (Some w) =
     (case classify_health cfg ndvi None of
        Inl e \<Rightarrow> Inl e
      | Inr r \<Rightarrow> Inr (if nonempty_dict w then r\<lparr>alerts := weather_correlated_alerts r w\<rparr> else r))"
proof (cases "valid_pixels ndvi")
  case Nil
  then show ?thesis by (simp add: classify_health_def Let_def)
next
  case (Cons x xs)
  show ?thesis
  proof (cases "nonempty_dict w")
    case False
    then show ?thesis by (simp add: classify_health_def Let_def Cons)
  next
    case True
    have g: "generate_recommendations (c\<lparr>alerts := a\<rparr>) = generate_recommendations c" for c a
      by (rule recommendations_depend_on_pcts) simp
    have h: "weather_correlated_alerts (c\<lparr>recommendations := rs\<rparr>) w = weather_correlated_alerts c w" for c rs
      by (rule alerts_depend_on_pcts) simp
    show ?thesis
      unfolding classify_health_def Let_def using True
      by (simp add: Cons weather_correlated_alerts_def generate_recommendations_def Let_def)
  qed
qed

lemma alerts_with_defaults:
  "weather_correlated_alerts c w =
     weather_correlated_alerts c
       \<lparr>soil = Some \<lparr>moisture = Some (get_default (moisture_of w) (5 / 10))\<rparr>,
        current = Some \<lparr>humidity_pct = Some (get_default (humidity_of w) 50),
                        temperature_c = Some (get_default (temperature_of w) 20)\<rparr>,
        other_keys = other_keys w\<rparr>"
  by (simp add: weather_correlated_alerts_def get_default_def moisture_of_def humidity_of_def
      temperature_of_def Let_def split: option.splits)

lemma lacks_weather_keys_iff:
  "lacks_weather_keys w \<longleftrightarrow>
     moisture_of w = None \<and> humidity_of w = None \<and> temperature_of w = None"
  by (auto simp: lacks_weather_keys_def moisture_of_def humidity_of_def temperature_of_def
      split: option.splits)

lemma empty_dict_lacks_keys: "\<not> nonempty_dict w \<Longrightarrow> lacks_weather_keys w"
  by (simp add: nonempty_dict_def lacks_weather_keys_def)

lemma alerts_titles:
  "(moisture_of w = None \<longrightarrow> ''Drought Stress Detected'' \<notin> set (map title (weather_correlated_alerts c w)))
   \<and> (humidity_of w = None \<longrightarrow> ''Disease Risk Elevated'' \<notin> set (map title (weather_correlated_alerts c w)))
   \<and> (temperature_of w = None \<longrightarrow> ''Frost Damage Risk'' \<notin> set (map title (weather_correlated_alerts c w)))"
  by (auto simp: weather_correlated_alerts_def get_default_def moisture_of_def humidity_of_def
      temperature_of_def Let_def drought_alert_def disease_alert_def frost_alert_def
      split: option.splits)


text \<open>
  C10, as stated, fails: a dictionary with humidity 85 and no temperature
  takes the default temperature 20, which exceeds 18, and with 30 percent of
  moderately stressed pixels the disease alert fires.
\<close>

theorem missing_temperature_disease_alert_counterexample:
  "temperature_of humid_weather = None
   \<and> (case classify_health default_config example_ndvi (Some humid_weather) of
         Inl e \<Rightarrow> False
       | Inr r \<Rightarrow> map title (alerts r) = [''Disease Risk Elevated''])"
proof -
  have t: "temperature_of humid_weather = None"
    by (simp add: temperature_of_def humid_weather_def)
  have n: "nonempty_dict humid_weather"
    by (simp add: nonempty_dict_def humid_weather_def)
  have a: "map title (weather_correlated_alerts c humid_weather) = [''Disease Risk Elevated'']"
    if "pcts c = \<lparr>healthy = 40, moderate_stress = 30, severe_stress = 20, critical = 10\<rparr>" for c
    using that
    by (simp add: weather_correlated_alerts_def humid_weather_def get_default_def Let_def
        disease_alert_def)
  show ?thesis
    using t n a by (simp add: classify_health_weather classify_example)
qed

text \<open>
  C10, amended.  A weather dictionary that lacks the soil moisture, humidity
  or temperature key is classified exactly as the dictionary in which each
  missing key holds its default (soil moisture 0.5, humidity 50, temperature
  20), and the weather never makes the classification fail.  A missing soil
  moisture never yields the drought alert, a missing humidity never the
  disease alert and a missing temperature never the frost alert; when all
  three keys are missing the alert list is empty.
\<close>

theorem missing_weather_keys_defaults:
  "classify_health cfg ndvi (Some w) =
     classify_health cfg ndvi
       (Some \<lparr>soil = Some \<lparr>moisture = Some (get_default (moisture_of w) (5 / 10))\<rparr>,
              current = Some \<lparr>humidity_pct = Some (get_default (humidity_of w) 50),
                              temperature_c = Some (get_default (temperature_of w) 20)\<rparr>,
              other_keys = other_keys w\<rparr>)
   \<and> (classify_health cfg ndvi (Some w) = Inl e \<longleftrightarrow> classify_health cfg ndvi None = Inl e)
   \<and> (valid_pixels ndvi \<noteq> [] \<longrightarrow> (\<exists>r'. classify_health cfg ndvi (Some w) = Inr r'))
   \<and> (classify_health cfg ndvi (Some w) = Inr r \<longrightarrow>
        (moisture_of w = None \<longrightarrow> ''Drought Stress Detected'' \<notin> set (map title (alerts r)))
        \<and> (humidity_of w = None \<longrightarrow> ''Disease Risk Elevated'' \<notin> set (map title (alerts r)))
        \<and> (temperature_of w = None \<longrightarrow> ''Frost Damage Risk'' \<notin> set (map title (alerts r)))
        \<and> (lacks_weather_keys w \<longrightarrow> alerts r = []))
   \<and> (lacks_weather_keys w \<longleftrightarrow>
        moisture_of w = None \<and> humidity_of w = None \<and> temperature_of w = None)
   \<and> (lacks_weather_keys w \<longrightarrow> weather_correlated_alerts c w = [])"
proof -
  let ?w' = "\<lparr>soil = Some \<lparr>moisture = Some (get_default (moisture_of w) (5 / 10))\<rparr>,
              current = Some \<lparr>humidity_pct = Some (get_default (humidity_of w) 50),
                              temperature_c = Some (get_default (temperature_of w) 20)\<rparr>,
              other_keys = other_keys w\<rparr>"
  have ne: "nonempty_dict ?w'" by (simp add: nonempty_dict_def)
  have e0: "weather_correlated_alerts r0 w = []" if "\<not> nonempty_dict w" for r0
    using alerts_of_missing_keys[OF empty_dict_lacks_keys[OF that]] .
  have noalerts: "alerts r0 = []" if "classify_health cfg ndvi None = Inr r0" for r0
    using that by (auto simp: classify_health_def Let_def split: sum.splits)
  have a: "classify_health cfg ndvi (Some w) = classify_health cfg ndvi (Some ?w')"
  proof (cases "classify_health cfg ndvi None")
    case (Inl e')
    then show ?thesis
      by (subst classify_health_weather[of cfg ndvi w],
          subst classify_health_weather[of cfg ndvi ?w']) simp
  next
    case (Inr r0)
    have "(if nonempty_dict w then r0\<lparr>alerts := weather_correlated_alerts r0 w\<rparr> else r0)
          = r0\<lparr>alerts := weather_correlated_alerts r0 ?w'\<rparr>"
    proof (cases "nonempty_dict w")
      case True
      then show ?thesis using alerts_with_defaults[of r0 w] by simp
    next
      case False
      have "weather_correlated_alerts r0 ?w' = []"
        using alerts_with_defaults[of r0 w] e0[OF False] by simp
      then show ?thesis using False noalerts[OF Inr] by simp
    qed
    then show ?thesis
      using Inr ne
      by (subst classify_health_weather[of cfg ndvi w],
          subst classify_health_weather[of cfg ndvi ?w']) simp
  qed
  have b: "classify_health cfg ndvi (Some w) = Inl e \<longleftrightarrow> classify_health cfg ndvi None = Inl e"
    by (simp add: classify_health_fails_iff)
  have c': "valid_pixels ndvi \<noteq> [] \<longrightarrow> (\<exists>r'. classify_health cfg ndvi (Some w) = Inr r')"
  proof
    assume nv: "valid_pixels ndvi \<noteq> []"
    show "\<exists>r'. classify_health cfg ndvi (Some w) = Inr r'"
    proof (cases "classify_health cfg ndvi (Some w)")
      case (Inl e')
      then show ?thesis using classify_health_fails_iff[of cfg ndvi "Some w" e'] nv by simp
    next
      case (Inr r')
      then show ?thesis by simp
    qed
  qed
  have d: "classify_health cfg ndvi (Some w) = Inr r \<longrightarrow>
        (moisture_of w = None \<longrightarrow> ''Drought Stress Detected'' \<notin> set (map title (alerts r)))
        \<and> (humidity_of w = None \<longrightarrow> ''Disease Risk Elevated'' \<notin> set (map title (alerts r)))
        \<and> (temperature_of w = None \<longrightarrow> ''Frost Damage Risk'' \<notin> set (map title (alerts r)))
        \<and> (lacks_weather_keys w \<longrightarrow> alerts r = [])"
  proof
    assume r: "classify_health cfg ndvi (Some w) = Inr r"
    from classify_health_alerts[OF r]
    consider "alerts r = []" | c0 where "alerts r = weather_correlated_alerts c0 w" by blast
    then show "(moisture_of w = None \<longrightarrow> ''Drought Stress Detected'' \<notin> set (map title (alerts r)))
        \<and> (humidity_of w = None \<longrightarrow> ''Disease Risk Elevated'' \<notin> set (map title (alerts r)))
        \<and> (temperature_of w = None \<longrightarrow> ''Frost Damage Risk'' \<notin> set (map title (alerts r)))
        \<and> (lacks_weather_keys w \<longrightarrow> alerts r = [])"
    proof cases
      case 1
      then show ?thesis by simp
    next
      case 2
      then show ?thesis
        using alerts_titles[of w c0] alerts_of_missing_keys[of w c0] by simp
    qed
  qed
  have f: "lacks_weather_keys w \<longrightarrow> weather_correlated_alerts c w = []"
    using alerts_of_missing_keys by blast
  from a b c' d lacks_weather_keys_iff[of w] f show ?thesis by blast
qed


theorem missing_weather_keys_witness:
  "lacks_weather_keys example_weather \<and> nonempty_dict example_weather
   \<and> valid_pixels example_ndvi \<noteq> []
   \<and> (\<exists>r. classify_health default_config example_ndvi (Some example_weather) = Inr r
          \<and> alerts r = [])
   \<and> moisture_of humid_weather = None \<and> humidity_of humid_weather = Some 85
   \<and> (\<exists>r. classify_health default_config example_ndvi (Some humid_weather) = Inr r
          \<and> ''Drought Stress Detected'' \<notin> set (map title (alerts r))
          \<and> ''Frost Damage Risk'' \<notin> set (map title (alerts r)))"
proof -
  note t = missing_weather_keys_defaults[where cfg = default_config and ndvi = example_ndvi]
  have l: "lacks_weather_keys example_weather"
    by (simp add: lacks_weather_keys_def example_weather_def)
  have n: "nonempty_dict example_weather"
    by (simp add: nonempty_dict_def example_weather_def)
  have v: "valid_pixels example_ndvi \<noteq> []"
    by (simp add: valid_pixels_def example_ndvi_def)
  have m: "moisture_of humid_weather = None" "temperature_of humid_weather = None"
    and h: "humidity_of humid_weather = Some 85"
    by (simp_all add: moisture_of_def humidity_of_def temperature_of_def humid_weather_def)
  obtain r1 where r1: "classify_health default_config example_ndvi (Some example_weather) = Inr r1"
    using t[where w = example_weather] v by blast
  have a1: "alerts r1 = []"
    using t[where w = example_weather and r = r1] r1 l by blast
  obtain r2 where r2: "classify_health default_config example_ndvi (Some humid_weather) = Inr r2"
    using t[where w = humid_weather] v by blast
  have a2: "''Drought Stress Detected'' \<notin> set (map title (alerts r2))"
    "''Frost Damage Risk'' \<notin> set (map title (alerts r2))"
    using t[where w = humid_weather and r = r2] r2 m by blast+
  show ?thesis using l n v r1 a1 m h r2 a2 by blast
qed

section \<open>Properties of the segmentation\<close>

lemma plots_loop_eq:
  "plots_loop cfg xy m rgs = map (make_plot cfg xy) (filter (\<lambda>rg. \<not> area rg < m) rgs)"
  by (induction rgs) simp_all

lemma make_plot_fields:
  "id_p (make_plot cfg xy rg) = label rg \<and> area_pixels (make_plot cfg xy rg) = area rg"
  by (cases "bbox rg") (simp add: make_plot_def Let_def)

lemma sorted_wrt_filter_map:
  assumes "sorted_wrt (<) (map f xs)"
  shows "sorted_wrt (<) (map f (filter P xs))"
  using assms by (induction xs) auto

lemma label_absent:
  assumes "sorted_wrt (<) (map label rgs)" and "rg \<in> set rgs" and "\<not> P rg"
  shows "label rg \<notin> set (map label (filter P rgs))"
  using assms by (induction rgs) auto

text \<open>
  C7.  Every plot returned by \<open>segment_plots\<close> has \<open>area_pixels\<close> at least
  \<open>min_plot_area\<close>: the plots are exactly the regions that meet the
  threshold, one plot per region with the region's label as id.  With the
  regions listed by ascending label (as \<open>regionprops\<close> lists them), the plot
  ids ascend and no region below the threshold has its label among them.
\<close>

theorem plots_meet_area_threshold:
  "(\<forall>p \<in> set (plots (segment_plots cfg lr xy ndvi m)). area_pixels p \<ge> m)
   \<and> plots (segment_plots cfg lr xy ndvi m)
       = map (make_plot cfg xy) (filter (\<lambda>rg. m \<le> area rg) (lr (veg_mask cfg ndvi) ndvi))
   \<and> map id_p (plots (segment_plots cfg lr xy ndvi m))
       = map label (filter (\<lambda>rg. m \<le> area rg) (lr (veg_mask cfg ndvi) ndvi))
   \<and> total_plots (segment_plots cfg lr xy ndvi m) = length (plots (segment_plots cfg lr xy ndvi m))
   \<and> (sorted_wrt (<) (map label (lr (veg_mask cfg ndvi) ndvi)) \<longrightarrow>
         sorted_wrt (<) (map id_p (plots (segment_plots cfg lr xy ndvi m)))
         \<and> (\<forall>rg \<in> set (lr (veg_mask cfg ndvi) ndvi). area rg < m \<longrightarrow>
              label rg \<notin> set (map id_p (plots (segment_plots cfg lr xy ndvi m)))))"
proof -
  let ?rgs = "lr (veg_mask cfg ndvi) ndvi"
  let ?ps = "plots (segment_plots cfg lr xy ndvi m)"
  have f: "(\<lambda>rg. \<not> area rg < m) = (\<lambda>rg. m \<le> area rg)" by (simp add: not_less)
  have p: "?ps = map (make_plot cfg xy) (filter (\<lambda>rg. m \<le> area rg) ?rgs)"
    by (simp add: segment_plots_def Let_def plots_loop_eq f)
  have ids: "map id_p ?ps = map label (filter (\<lambda>rg. m \<le> area rg) ?rgs)"
    unfolding p by (simp add: make_plot_fields comp_def)
  have a: "\<forall>p \<in> set ?ps. area_pixels p \<ge> m"
    unfolding p by (auto simp: make_plot_fields)
  have d: "total_plots (segment_plots cfg lr xy ndvi m) = length ?ps"
    by (simp add: segment_plots_def Let_def)
  have c: "sorted_wrt (<) (map label ?rgs) \<longrightarrow>
         sorted_wrt (<) (map id_p ?ps)
         \<and> (\<forall>rg \<in> set ?rgs. area rg < m \<longrightarrow> label rg \<notin> set (map id_p ?ps))"
  proof
    assume s: "sorted_wrt (<) (map label ?rgs)"
    have c1: "sorted_wrt (<) (map id_p ?ps)"
      unfolding ids by (rule sorted_wrt_filter_map[OF s])
    have c2: "\<forall>rg \<in> set ?rgs. area rg < m \<longrightarrow> label rg \<notin> set (map id_p ?ps)"
    proof (intro ballI impI)
      fix rg assume "rg \<in> set ?rgs" and "area rg < m"
      then show "label rg \<notin> set (map id_p ?ps)"
        unfolding ids using label_absent[OF s, of rg "\<lambda>rg. m \<le> area rg"] by simp
    qed
    from c1 c2 show "sorted_wrt (<) (map id_p ?ps)
         \<and> (\<forall>rg \<in> set ?rgs. area rg < m \<longrightarrow> label rg \<notin> set (map id_p ?ps))" by blast
  qed
  from a p ids d c show ?thesis by blast
qed

lemma example_plots:
  "map id_p (plots (segment_plots default_config (\<lambda>mask ndvi. example_regions) example_xy example_ndvi 100)) = [1, 3]
   \<and> map area_pixels (plots (segment_plots default_config (\<lambda>mask ndvi. example_regions) example_xy example_ndvi 100)) = [150, 100]
   \<and> map label example_regions = [1, 2, 3]"
  by (simp add: segment_plots_def example_regions_def make_plot_def Let_def)

theorem plots_meet_area_threshold_witness:
  "sorted_wrt (<) (map label example_regions)
   \<and> map id_p (plots (segment_plots default_config (\<lambda>mask ndvi. example_regions) example_xy example_ndvi 100)) = [1, 3]
   \<and> map area_pixels (plots (segment_plots default_config (\<lambda>mask ndvi. example_regions) example_xy example_ndvi 100)) = [150, 100]
   \<and> sorted_wrt (<) (map id_p (plots (segment_plots default_config (\<lambda>mask ndvi. example_regions) example_xy example_ndvi 100)))
   \<and> total_plots (segment_plots default_config (\<lambda>mask ndvi. example_regions) example_xy example_ndvi 100) = 2"
proof -
  let ?res = "segment_plots default_config (\<lambda>mask ndvi. example_regions) example_xy example_ndvi 100"
  note t = plots_meet_area_threshold[where cfg = default_config and lr = "\<lambda>mask ndvi. example_regions"
      and xy = example_xy and ndvi = example_ndvi and m = 100]
  have s: "sorted_wrt (<) (map label example_regions)"
    by (simp add: example_regions_def)
  have o: "sorted_wrt (<) (map id_p (plots ?res))"
    using t s by blast
  have "total_plots ?res = length (map id_p (plots ?res))"
    using t by simp
  then have n: "total_plots ?res = 2"
    by (simp add: example_plots)
  show ?thesis using s o n example_plots by simp
qed

lemma plot_feature_ring:
  "coordinates (geometry_f (plot_feature p)) =
     [[[west (bbox_geo p), south (bbox_geo p)],
       [east (bbox_geo p), south (bbox_geo p)],
       [east (bbox_geo p), north (bbox_geo p)],
       [west (bbox_geo p), north (bbox_geo p)],
       [west (bbox_geo p), south (bbox_geo p)]]]
   \<and> type_g (geometry_f (plot_feature p)) = ''Polygon''
   \<and> type_f (plot_feature p) = ''Feature''
   \<and> properties_f (plot_feature p) =
       \<lparr>plot_id = id_p p, health_class_prop = health_class p, health_color_prop = health_color p,
        mean_ndvi = mean_p (ndvi_stats p), area_pixels_prop = area_pixels p\<rparr>"
  by (simp add: plot_feature_def Let_def)

text \<open>
  C9.  \<open>plots_to_geojson\<close> yields a FeatureCollection with one feature per
  plot, in the order of the plots list.  The geometry of the feature of a plot
  is a polygon with one ring of five positions, the bounding-box corners
  west-south, east-south, east-north, west-north and west-south again, and its
  properties are the plot's id, health class, health colour, mean NDVI and
  pixel area.
\<close>

theorem geojson_one_feature_per_plot:
  "type_fc (plots_to_geojson res) = ''FeatureCollection''
   \<and> length (features (plots_to_geojson res)) = length (plots res)
   \<and> map (\<lambda>f. plot_id (properties_f f)) (features (plots_to_geojson res)) = map id_p (plots res)
   \<and> (\<forall>i < length (plots res).
        (let f = features (plots_to_geojson res) ! i; p = plots res ! i; b = bbox_geo p
         in type_f f = ''Feature''
            \<and> type_g (geometry_f f) = ''Polygon''
            \<and> coordinates (geometry_f f) =
                [[[west b, south b], [east b, south b], [east b, north b],
                  [west b, north b], [west b, south b]]]
            \<and> length (hd (coordinates (geometry_f f))) = 5
            \<and> hd (hd (coordinates (geometry_f f))) = last (hd (coordinates (geometry_f f)))
            \<and> properties_f f =
                \<lparr>plot_id = id_p p, health_class_prop = health_class p,
                 health_color_prop = health_color p, mean_ndvi = mean_p (ndvi_stats p),
                 area_pixels_prop = area_pixels p\<rparr>))"
proof -
  have a: "features (plots_to_geojson res) = map plot_feature (plots res)"
    and t: "type_fc (plots_to_geojson res) = ''FeatureCollection''"
    by (simp_all add: plots_to_geojson_def)
  have b: "map (\<lambda>f. plot_id (properties_f f)) (features (plots_to_geojson res)) = map id_p (plots res)"
    unfolding a by (simp add: plot_feature_ring comp_def)
  have c: "\<forall>i < length (plots res).
        (let f = features (plots_to_geojson res) ! i; p = plots res ! i; b = bbox_geo p
         in type_f f = ''Feature''
            \<and> type_g (geometry_f f) = ''Polygon''
            \<and> coordinates (geometry_f f) =
                [[[west b, south b], [east b, south b], [east b, north b],
                  [west b, north b], [west b, south b]]]
            \<and> length (hd (coordinates (geometry_f f))) = 5
            \<and> hd (hd (coordinates (geometry_f f))) = last (hd (coordinates (geometry_f f)))
            \<and> properties_f f =
                \<lparr>plot_id = id_p p, health_class_prop = health_class p,
                 health_color_prop = health_color p, mean_ndvi = mean_p (ndvi_stats p),
                 area_pixels_prop = area_pixels p\<rparr>)"
    unfolding a by (simp add: plot_feature_ring Let_def)
  from t a b c show ?thesis by simp
qed

lemma example_segmentation_plots:
  "length (plots example_segmentation) = 2
   \<and> map id_p (plots example_segmentation) = [1, 3]
   \<and> bbox_geo (plots example_segmentation ! 0)
       = \<lparr>south = - 21 / 2, west = 1 / 2, north = - 1 / 2, east = 31 / 2\<rparr>"
  by (simp add: example_segmentation_def segment_plots_def example_regions_def make_plot_def
      example_xy_def Let_def)

theorem geojson_one_feature_per_plot_witness:
  "length (features (plots_to_geojson example_segmentation)) = 2
   \<and> map (\<lambda>f. plot_id (properties_f f)) (features (plots_to_geojson example_segmentation)) = [1, 3]
   \<and> coordinates (geometry_f (features (plots_to_geojson example_segmentation) ! 0))
       = [[[1 / 2, - 21 / 2], [31 / 2, - 21 / 2], [31 / 2, - 1 / 2], [1 / 2, - 1 / 2], [1 / 2, - 21 / 2]]]"
proof -
  note t = geojson_one_feature_per_plot[of example_segmentation]
  note e = example_segmentation_plots
  have l: "length (features (plots_to_geojson example_segmentation)) = 2"
    using t e by simp
  have m: "map (\<lambda>f. plot_id (properties_f f)) (features (plots_to_geojson example_segmentation)) = [1, 3]"
    using t e by simp
  have "0 < length (plots example_segmentation)" using e by simp
  with t have "let f = features (plots_to_geojson example_segmentation) ! 0;
                   p = plots example_segmentation ! 0; b = bbox_geo p
               in coordinates (geometry_f f) =
                    [[[west b, south b], [east b, south b], [east b, north b],
                      [west b, north b], [west b, south b]]]"
    unfolding Let_def by blast
  then have c: "coordinates (geometry_f (features (plots_to_geojson example_segmentation) ! 0))
       = [[[1 / 2, - 21 / 2], [31 / 2, - 21 / 2], [31 / 2, - 1 / 2], [1 / 2, - 1 / 2], [1 / 2, - 21 / 2]]]"
    using e by (simp add: Let_def)
  from l m c show ?thesis by blast
qed


section \<open>Properties of the orchestrator\<close>

lemma try_steps_failing: "try_steps failing_env (Some ''field.tif'') = Inl (Exception [])"
  by (simp add: try_steps_def failing_env_def bind_def)

text \<open>
  C6.  When the weather fetch raises an exception with an empty message, the
  caller receives the failure payload with status "failed" and the run id, but
  the run's row is updated with status "completed": \<open>complete_pipeline_run\<close>
  tests the truth value of the error string, and the empty string is false.
\<close>

theorem empty_message_failure_recorded_completed:
  "try_steps failing_env (Some ''field.tif'') = Inl (Exception [])
   \<and> snd (run_pipeline failing_env empty_db (Some ''field.tif'')) = RunFailed [] 1
   \<and> result_status (snd (run_pipeline failing_env empty_db (Some ''field.tif''))) = ''failed''
   \<and> find_run (fst (run_pipeline failing_env empty_db (Some ''field.tif''))) 1
       = Some \<lparr>id_r = 1, start_time = ''2024-05-01T10:00:00'', end_time = Some ''2024-05-01T10:00:02'',
               status = ''completed'', imagery_id = None, processing_time_s = Some (5 / 2),
               steps_completed = Some [], error_message = Some []\<rparr>"
  by (simp add: try_steps_failing run_pipeline_def start_pipeline_run_def complete_pipeline_run_def
      run_status_def find_run_def empty_db_def Let_def)
     (simp add: failing_env_def)

text \<open>
  For any exception raised by a step, the payload is the failure payload and
  the row records the elapsed time and the message; the status recorded is
  "failed" exactly when the message is not empty.
\<close>

lemma find_append_new:
  assumes "\<forall>x \<in> set xs. \<not> P x" and "P y"
  shows "find P (xs @ [y]) = Some y"
  using assms by (induction xs) simp_all

lemma find_run_completed:
  assumes "\<forall>r \<in> set (pipeline_runs d). id_r r \<le> run_seq d"
  shows "find_run (complete_pipeline_run now (snd (start_pipeline_run now0 d))
                     (fst (start_pipeline_run now0 d)) img t steps err) (run_seq d + 1)
       = Some \<lparr>id_r = run_seq d + 1, start_time = now0, end_time = Some now,
               status = run_status err, imagery_id = img, processing_time_s = Some t,
               steps_completed = Some steps, error_message = err\<rparr>"
proof -
  let ?rid = "run_seq d + 1"
  let ?upd = "\<lambda>r. if id_r r = ?rid
                then r\<lparr>end_time := Some now, status := run_status err, imagery_id := img,
                       processing_time_s := Some t, steps_completed := Some steps,
                       error_message := err\<rparr>
                else r"
  let ?row = "\<lparr>id_r = ?rid, start_time = now0, end_time = Some now, status = run_status err,
               imagery_id = img, processing_time_s = Some t, steps_completed = Some steps,
               error_message = err\<rparr>"
  have old: "\<forall>r \<in> set (map ?upd (pipeline_runs d)). \<not> id_r r = ?rid"
    using assms by fastforce
  have "find (\<lambda>r. id_r r = ?rid) (map ?upd (pipeline_runs d) @ [?row]) = Some ?row"
    by (rule find_append_new[OF old]) simp
  then show ?thesis
    by (simp add: start_pipeline_run_def complete_pipeline_run_def find_run_def Let_def)
qed

lemma run_pipeline_failure_recorded:
  assumes "try_steps en image_path = Inl e"
    and "\<forall>r \<in> set (pipeline_runs d). id_r r \<le> run_seq d"
  shows "snd (run_pipeline en d image_path) = RunFailed (str e) (run_seq d + 1)
       \<and> find_run (fst (run_pipeline en d image_path)) (run_seq d + 1)
           = Some \<lparr>id_r = run_seq d + 1, start_time = now_start en, end_time = Some (now_end en),
                   status = (if str e \<noteq> [] then ''failed'' else ''completed''),
                   imagery_id = None, processing_time_s = Some (time_end en - time_start en),
                   steps_completed = Some [], error_message = Some (str e)\<rparr>"
proof -
  have r: "run_pipeline en d image_path =
        (complete_pipeline_run (now_end en) (snd (start_pipeline_run (now_start en) d))
           (fst (start_pipeline_run (now_start en) d)) None (time_end en - time_start en) []
           (Some (str e)),
         RunFailed (str e) (fst (start_pipeline_run (now_start en) d)))"
    using assms(1) by (simp add: run_pipeline_def Let_def split: prod.splits)
  have i: "fst (start_pipeline_run (now_start en) d) = run_seq d + 1"
    by (simp add: start_pipeline_run_def Let_def)
  have s: "run_status (Some (str e)) = (if str e \<noteq> [] then ''failed'' else ''completed'')"
    by (simp add: run_status_def)
  show ?thesis
    unfolding r using find_run_completed[OF assms(2), of "now_end en" "now_start en" None
        "time_end en - time_start en" "[]" "Some (str e)"] i s
    by simp
qed


end
